theory Spec2Isabelle
  imports Main
begin

section \<open>JavaScript strings and values\<close>

text \<open>
  Strings are lists of eight-bit characters. The case mappings act on the ASCII range,
  which covers every literal the program compares against; characters outside ASCII are
  left as they are. \<open>trim\<close> strips the white space and line terminators that fit in
  eight bits: tab, line feed, vertical tab, form feed, carriage return, space and the
  no-break space.
\<close>

definition LF :: string where
  "LF = [CHR 0x0A]"

definition toLowerCaseChar :: "char \<Rightarrow> char" where
  "toLowerCaseChar c =
     (let n = (of_char c :: nat) in if 65 \<le> n \<and> n \<le> 90 then char_of (n + 32) else c)"

definition toUpperCaseChar :: "char \<Rightarrow> char" where
  "toUpperCaseChar c =
     (let n = (of_char c :: nat) in if 97 \<le> n \<and> n \<le> 122 then char_of (n - 32) else c)"

definition toLowerCase :: "string \<Rightarrow> string" where
  "toLowerCase s = map toLowerCaseChar s"

definition toUpperCase :: "string \<Rightarrow> string" where
  "toUpperCase s = map toUpperCaseChar s"

definition isWhiteSpace :: "char \<Rightarrow> bool" where
  "isWhiteSpace c = ((of_char c :: nat) \<in> {9, 10, 11, 12, 13, 32, 160})"

definition trim :: "string \<Rightarrow> string" where
  "trim s = rev (dropWhile isWhiteSpace (rev (dropWhile isWhiteSpace s)))"

fun startsWith :: "string \<Rightarrow> string \<Rightarrow> bool" where
  "startsWith s [] = True"
| "startsWith [] (c # cs) = False"
| "startsWith (x # xs) (c # cs) = (x = c \<and> startsWith xs cs)"

text \<open>\<open>includesStr s sub\<close> is \<open>s.includes(sub)\<close>: \<open>sub\<close> occurs in \<open>s\<close> as a contiguous run.\<close>

fun includesStr :: "string \<Rightarrow> string \<Rightarrow> bool" where
  "includesStr [] sub = (sub = [])"
| "includesStr (x # xs) sub = (startsWith (x # xs) sub \<or> includesStr xs sub)"

text \<open>
  An optional string field (\<open>field?: string\<close>) is \<open>None\<close> when the property is absent.
  \<open>truthy\<close> is the test \<open>if (field)\<close>: absent and the empty string are both falsy.
\<close>

fun truthy :: "string option \<Rightarrow> bool" where
  "truthy None = False"
| "truthy (Some s) = (s \<noteq> [])"

text \<open>\<open>orElse a b\<close> is \<open>a || b\<close> on optional strings.\<close>

definition orElse :: "string option \<Rightarrow> string option \<Rightarrow> string option" where
  "orElse a b = (if truthy a then a else b)"

text \<open>\<open>orDefault a d\<close> is \<open>a || 'literal'\<close>.\<close>

fun orDefault :: "string option \<Rightarrow> string \<Rightarrow> string" where
  "orDefault None d = d"
| "orDefault (Some s) d = (if s = [] then d else s)"

text \<open>A template literal prints an absent value as the text \<open>undefined\<close>.\<close>

fun template :: "string option \<Rightarrow> string" where
  "template None = ''undefined''"
| "template (Some s) = s"

text \<open>
  The value of a property read \<open>obj[key]\<close> on an object literal: one of the literal's own
  string properties, a member inherited from \<open>Object.prototype\<close> (a function, or the
  prototype object itself for \<open>__proto__\<close>), or \<open>undefined\<close>.
\<close>

datatype js_value = JUndefined | JString string | JInherited string

definition objectPrototypeKeys :: "string list" where
  "objectPrototypeKeys =
     [''constructor'', ''__proto__'', ''hasOwnProperty'', ''isPrototypeOf'',
      ''propertyIsEnumerable'', ''toLocaleString'', ''toString'', ''valueOf'',
      ''__defineGetter__'', ''__defineSetter__'', ''__lookupGetter__'', ''__lookupSetter__'']"

definition getProperty :: "(string \<times> string) list \<Rightarrow> string \<Rightarrow> js_value" where
  "getProperty obj key =
     (case map_of obj key of
        Some v \<Rightarrow> JString v
      | None \<Rightarrow> if key \<in> set objectPrototypeKeys then JInherited key else JUndefined)"

fun truthyValue :: "js_value \<Rightarrow> bool" where
  "truthyValue JUndefined = False"
| "truthyValue (JString s) = (s \<noteq> [])"
| "truthyValue (JInherited k) = True"

definition orValue :: "js_value \<Rightarrow> js_value \<Rightarrow> js_value" where
  "orValue a b = (if truthyValue a then a else b)"

text \<open>How a template literal prints such a value (the engine's text for a native function).\<close>

fun templateValue :: "js_value \<Rightarrow> string" where
  "templateValue JUndefined = ''undefined''"
| "templateValue (JString s) = s"
| "templateValue (JInherited k) =
     (if k = ''__proto__'' then ''[object Object]''
      else ''function '' @ (if k = ''constructor'' then ''Object'' else k) @ ''() { [native code] }'')"

section \<open>The provider adapter (class AIService)\<close>

record AIServiceConfig =
  provider :: string
  apiKey :: string
  model :: "string option"

record TextGenerationParams =
  level :: string
  prompt :: string
  maxTokens :: "nat option"

record AIServiceResponse =
  success :: bool
  text' :: "string option"
  error :: "string option"

subsection \<open>getSystemPrompt\<close>

definition prompts :: "(string \<times> string) list" where
  "prompts =
     [(''Elementary'', ''You are an English teacher creating simple, engaging content for elementary level students. Use basic vocabulary and simple sentence structures.''),
      (''Pre-Intermediate'', ''You are an English teacher creating content for pre-intermediate students. Use moderately complex vocabulary and varied sentence structures.''),
      (''Intermediate'', ''You are an English teacher creating content for intermediate level students. Use a good variety of vocabulary and complex sentence structures.''),
      (''Upper-Intermediate'', ''You are an English teacher creating advanced content for upper-intermediate students. Use sophisticated vocabulary and complex grammatical structures.''),
      (''Advanced'', ''You are an English teacher creating challenging content for advanced students. Use complex vocabulary, idiomatic expressions, and sophisticated grammatical structures.'')]"

definition getSystemPrompt :: "string \<Rightarrow> js_value" where
  "getSystemPrompt lvl = orValue (getProperty prompts lvl) (getProperty prompts ''Intermediate'')"

subsection \<open>Values thrown by a vendor call\<close>

text \<open>
  A thrown value is either an instance of \<open>Error\<close>, carrying its \<open>status\<close> (when the SDK
  sets one), its \<open>message\<close> and, for an HTTP client error, the vendor's
  \<open>response.data.error.message\<close>; or some other value with optional \<open>status\<close> and
  \<open>message\<close> properties; or \<open>null\<close> or \<open>undefined\<close>. The readers below are the guarded
  reads (\<open>error?.status\<close>, \<open>error?.message\<close>); an unguarded read of a property of
  \<open>null\<close> or \<open>undefined\<close> throws, which the handlers below write out where they do it.
\<close>

datatype thrown =
    ErrorObject "nat option" string "string option"
  | OtherThrown "nat option" "string option"
  | ThrownNullish

fun instanceofError :: "thrown \<Rightarrow> bool" where
  "instanceofError (ErrorObject st msg rm) = True"
| "instanceofError (OtherThrown st msg) = False"
| "instanceofError ThrownNullish = False"

fun statusOf :: "thrown \<Rightarrow> nat option" where
  "statusOf (ErrorObject st msg rm) = st"
| "statusOf (OtherThrown st msg) = st"
| "statusOf ThrownNullish = None"

fun messageOf :: "thrown \<Rightarrow> string option" where
  "messageOf (ErrorObject st msg rm) = Some msg"
| "messageOf (OtherThrown st msg) = msg"
| "messageOf ThrownNullish = None"

fun responseErrorMessage :: "thrown \<Rightarrow> string option" where
  "responseErrorMessage (ErrorObject st msg rm) = rm"
| "responseErrorMessage (OtherThrown st msg) = None"
| "responseErrorMessage ThrownNullish = None"

subsection \<open>The vendors' request and response shapes\<close>

text \<open>
  The constant sampling temperature of the chat request is left out; every other field
  the adapter sends is kept.
\<close>

record ChatCompletionRequest =
  chat_model :: string
  chat_messages :: "(string \<times> js_value) list"
  chat_max_tokens :: nat

record ChatChoiceMessage =
  content :: "string option"

record ChatChoice =
  message :: "ChatChoiceMessage option"

record ChatCompletion =
  choices :: "ChatChoice list"

record MessagesRequest =
  msg_model :: string
  msg_max_tokens :: nat
  msg_system :: js_value
  msg_messages :: "(string \<times> string) list"

record ContentBlock =
  block_type :: string
  block_text :: string

record ClaudeMessage =
  content_blocks :: "ContentBlock list"

text \<open>
  The outside world: what each vendor SDK call yields for an API key and a request.
  For Gemini the call is \<open>getGenerativeModel\<close>, \<open>generateContent\<close> and \<open>response.text()\<close>
  together, given the key, the model name and the prompt.
\<close>

record vendors =
  openai_create :: "string \<Rightarrow> ChatCompletionRequest \<Rightarrow> thrown + ChatCompletion"
  anthropic_create :: "string \<Rightarrow> MessagesRequest \<Rightarrow> thrown + ClaudeMessage"
  gemini_generateContent :: "string \<Rightarrow> string \<Rightarrow> string \<Rightarrow> thrown + string"

subsection \<open>The per-vendor methods\<close>

text \<open>\<open>maxTokensOr n d\<close> is \<open>params.maxTokens || d\<close>: absent and zero both give the default.\<close>

fun maxTokensOr :: "nat option \<Rightarrow> nat \<Rightarrow> nat" where
  "maxTokensOr None d = d"
| "maxTokensOr (Some n) d = (if n = 0 then d else n)"

definition failure :: "string \<Rightarrow> AIServiceResponse" where
  "failure e = \<lparr>success = False, text' = None, error = Some e\<rparr>"

text \<open>\<open>response.choices[0]?.message?.content\<close>\<close>

definition firstChoiceContent :: "ChatCompletion \<Rightarrow> string option" where
  "firstChoiceContent response =
     (case choices response of
        [] \<Rightarrow> None
      | c # cs \<Rightarrow> (case message c of None \<Rightarrow> None | Some m \<Rightarrow> content m))"

definition openaiRequest :: "AIServiceConfig \<Rightarrow> TextGenerationParams \<Rightarrow> ChatCompletionRequest" where
  "openaiRequest config params =
     \<lparr>chat_model = orDefault (model config) ''gpt-3.5-turbo'',
      chat_messages = [(''system'', getSystemPrompt (level params)),
                       (''user'', JString (prompt params))],
      chat_max_tokens = maxTokensOr (maxTokens params) 500\<rparr>"

definition generateWithOpenAI ::
  "vendors \<Rightarrow> AIServiceConfig \<Rightarrow> TextGenerationParams \<Rightarrow> thrown + AIServiceResponse" where
  "generateWithOpenAI v config params =
     (case openai_create v (apiKey config) (openaiRequest config params) of
        Inr response \<Rightarrow>
          (let t = firstChoiceContent response in
           if \<not> truthy t then Inr (failure ''No text generated from OpenAI'')
           else Inr \<lparr>success = True, text' = t, error = None\<rparr>)
      | Inl err \<Rightarrow>
          if statusOf err = Some 401
          then Inr (failure ''Invalid OpenAI API key. Please check your API key at https://platform.openai.com/api-keys'')
          else Inl err)"

definition claudeRequest :: "AIServiceConfig \<Rightarrow> TextGenerationParams \<Rightarrow> MessagesRequest" where
  "claudeRequest config params =
     \<lparr>msg_model = orDefault (model config) ''claude-3-haiku-20240307'',
      msg_max_tokens = maxTokensOr (maxTokens params) 500,
      msg_system = getSystemPrompt (level params),
      msg_messages = [(''user'', prompt params)]\<rparr>"

definition generateWithClaude ::
  "vendors \<Rightarrow> AIServiceConfig \<Rightarrow> TextGenerationParams \<Rightarrow> thrown + AIServiceResponse" where
  "generateWithClaude v config params =
     (case anthropic_create v (apiKey config) (claudeRequest config params) of
        Inr response \<Rightarrow>
          (case find (\<lambda>block. block_type block = ''text'') (content_blocks response) of
             None \<Rightarrow> Inr (failure ''No text generated from Claude'')
           | Some textContent \<Rightarrow>
               if block_type textContent \<noteq> ''text''
               then Inr (failure ''No text generated from Claude'')
               else Inr \<lparr>success = True, text' = Some (block_text textContent), error = None\<rparr>)
      | Inl err \<Rightarrow>
          if statusOf err = Some 401
          then Inr (failure ''Invalid Claude API key. Please check your API key at https://console.anthropic.com/'')
          else Inl err)"

definition geminiFullPrompt :: "TextGenerationParams \<Rightarrow> string" where
  "geminiFullPrompt params = templateValue (getSystemPrompt (level params)) @ LF @ LF @ prompt params"

definition generateWithGemini ::
  "vendors \<Rightarrow> AIServiceConfig \<Rightarrow> TextGenerationParams \<Rightarrow> thrown + AIServiceResponse" where
  "generateWithGemini v config params =
     (let modelName = orDefault (model config) ''gemini-1.5-flash'' in
      case gemini_generateContent v (apiKey config) modelName (geminiFullPrompt params) of
        Inr t \<Rightarrow>
          if t = [] then Inr (failure ''No text generated from Gemini'')
          else Inr \<lparr>success = True, text' = Some t, error = None\<rparr>
      | Inl err \<Rightarrow>
          if statusOf err = Some 400 \<and>
             (case messageOf err of None \<Rightarrow> False | Some m \<Rightarrow> includesStr m ''API key not valid'')
          then Inr (failure ''Invalid Gemini API key. Please get a valid API key from https://makersuite.google.com/app/apikey'')
          else Inl err)"

definition generateWithCohere :: "TextGenerationParams \<Rightarrow> AIServiceResponse" where
  "generateWithCohere params = failure ''Cohere integration not yet implemented''"

subsection \<open>generateText: dispatch and the error classifier\<close>

text \<open>The body of the \<open>catch\<close> block of \<open>generateText\<close>: the user message for a caught value.\<close>

definition classifyError :: "string \<Rightarrow> thrown \<Rightarrow> string" where
  "classifyError prov err =
     (case err of
        OtherThrown st msg \<Rightarrow> ''Unknown AI service error''
      | ThrownNullish \<Rightarrow> ''Unknown AI service error''
      | ErrorObject st msg rm \<Rightarrow>
          (let errorMessage = toLowerCase msg in
           if includesStr errorMessage ''api key not valid'' \<or>
              includesStr errorMessage ''invalid api key'' \<or>
              includesStr errorMessage ''api_key_invalid'' \<or>
              includesStr errorMessage ''unauthorized''
           then ''Invalid '' @ toUpperCase prov @ '' API key. Please check your API key and try again.''
           else if includesStr errorMessage ''rate limit'' \<or>
                   includesStr errorMessage ''quota'' \<or>
                   includesStr errorMessage ''too many requests''
           then toUpperCase prov @ '' rate limit exceeded. Please try again in a few minutes.''
           else if includesStr errorMessage ''network'' \<or>
                   includesStr errorMessage ''connection'' \<or>
                   includesStr errorMessage ''timeout''
           then ''Network error connecting to '' @ toUpperCase prov @ ''. Please check your internet connection.''
           else if includesStr errorMessage ''400'' \<or> includesStr errorMessage ''bad request''
           then ''Invalid request to '' @ toUpperCase prov @ ''. Please check your API key configuration.''
           else if includesStr errorMessage ''500'' \<or> includesStr errorMessage ''internal server error''
           then toUpperCase prov @ '' service is temporarily unavailable. Please try again later.''
           else msg))"

definition dispatch ::
  "vendors \<Rightarrow> AIServiceConfig \<Rightarrow> TextGenerationParams \<Rightarrow> thrown + AIServiceResponse" where
  "dispatch v config params =
     (if provider config = ''openai'' then generateWithOpenAI v config params
      else if provider config = ''claude'' then generateWithClaude v config params
      else if provider config = ''gemini'' then generateWithGemini v config params
      else if provider config = ''cohere'' then Inr (generateWithCohere params)
      else Inr (failure (''Unsupported AI provider: '' @ provider config)))"

definition generateText :: "vendors \<Rightarrow> AIServiceConfig \<Rightarrow> TextGenerationParams \<Rightarrow> AIServiceResponse" where
  "generateText v config params =
     (case dispatch v config params of
        Inr r \<Rightarrow> r
      | Inl err \<Rightarrow> failure (classifyError (provider config) err))"

section \<open>The HTTP gateway (aiRouter)\<close>

text \<open>
  A handler's result is the HTTP status, the JSON body and the outbound calls it made, in
  order: calls of \<open>AIService.generateText\<close> (with the configuration the service was
  constructed from) and direct \<open>axios.post\<close> requests. Logging is not modelled.
  The service and the HTTP client are parameters of the handlers, so that a service that
  throws is covered as well. Request fields have the types of the TypeScript interfaces:
  each is a string or absent. Every step that can throw sits in an inner \<open>try\<close> block
  of its handler. The inner \<open>catch\<close> blocks of generate-text read a property of the
  caught value unguarded; when that value is \<open>null\<close> or \<open>undefined\<close> the read throws
  and the outer \<open>catch\<close> answers. The outer \<open>catch\<close> of translate-word has no branch
  here.
\<close>

record GeminiRequestBody =
  contents :: "string list list"

record GeminiPart =
  part_text :: "string option"

record GeminiContent =
  parts :: "GeminiPart list option"

record GeminiCandidate =
  candidate_content :: "GeminiContent option"

record GeminiData =
  candidates :: "GeminiCandidate list option"

datatype outbound =
    ServiceCall AIServiceConfig TextGenerationParams
  | AxiosPost string GeminiRequestBody

record 'b exchange =
  status :: nat
  body :: 'b
  calls :: "outbound list"

type_synonym service = "AIServiceConfig \<Rightarrow> TextGenerationParams \<Rightarrow> thrown + AIServiceResponse"

type_synonym axios = "string \<Rightarrow> GeminiRequestBody \<Rightarrow> thrown + GeminiData"

record AIResponse =
  res_success :: bool
  res_text :: "string option"
  res_message :: "string option"
  res_error :: "string option"

definition errorBody :: "string \<Rightarrow> AIResponse" where
  "errorBody e = \<lparr>res_success = False, res_text = None, res_message = None, res_error = Some e\<rparr>"

definition textBody :: "string option \<Rightarrow> AIResponse" where
  "textBody t = \<lparr>res_success = True, res_text = t, res_message = None, res_error = None\<rparr>"

text \<open>The outer \<open>catch\<close> of generate-text, after the outbound calls made so far.\<close>

definition unexpectedError :: "outbound list \<Rightarrow> AIResponse exchange" where
  "unexpectedError cs =
     \<lparr>status = 500, body = errorBody ''An unexpected error occurred on the server.'', calls = cs\<rparr>"

subsection \<open>POST /validate-token\<close>

definition validate_token :: "string option \<Rightarrow> AIResponse exchange" where
  "validate_token apiToken =
     (if \<not> truthy apiToken
      then \<lparr>status = 400, body = errorBody ''API token is required'', calls = []\<rparr>
      else \<lparr>status = 200,
            body = \<lparr>res_success = True, res_text = None,
                    res_message = Some ''Hello! I am your personal English teacher. I am ready to help you learn. Please select your proficiency level to begin.'',
                    res_error = None\<rparr>,
            calls = []\<rparr>)"

subsection \<open>POST /generate-text\<close>

record TextGenerationRequest =
  req_level :: "string option"
  req_apiToken :: "string option"
  req_provider :: "string option"
  req_model :: "string option"
  req_customPrompt :: "string option"

definition wordCountRange :: "string \<Rightarrow> string" where
  "wordCountRange lvl =
     (if lvl = ''Elementary'' then ''150-200''
      else if lvl = ''Pre-Intermediate'' then ''200-250''
      else if lvl = ''Intermediate'' then ''250-300''
      else if lvl = ''Upper-Intermediate'' then ''300-400''
      else ''400-500'')"

definition levelPrompt :: "string \<Rightarrow> string" where
  "levelPrompt lvl =
     ''Generate a high-quality, engaging reading comprehension text for '' @ lvl @ '' level English learners.'' @ LF @
     LF @
     ''Requirements:'' @ LF @
     ''- Text should be approximately '' @ wordCountRange lvl @ '' words.'' @ LF @
     ''- Use appropriate vocabulary and grammar complexity for the specified level.'' @ LF @
     ''- Ensure the text is engaging, educational, coherent, and flows naturally.'' @ LF @
     LF @
     ''Level: '' @ lvl @ LF @
     ''Please generate a completely new and unique text now:''"

text \<open>The prompt the handler builds from the level and the optional custom prompt.\<close>

fun buildPrompt :: "string \<Rightarrow> string option \<Rightarrow> string" where
  "buildPrompt lvl None = levelPrompt lvl"
| "buildPrompt lvl (Some customPrompt) = (if customPrompt \<noteq> [] then customPrompt else levelPrompt lvl)"

text \<open>
  Reading index 0 of a property that is \<open>undefined\<close> throws a \<open>TypeError\<close>; the
  message is the one Node.js gives.
\<close>

definition typeErrorReading0 :: thrown where
  "typeErrorReading0 =
     ErrorObject None (''Cannot read properties of undefined (reading '' @ [CHR 0x27] @ ''0'' @ [CHR 0x27] @ '')'') None"

text \<open>\<open>response.data.candidates[0]?.content?.parts[0]?.text\<close>\<close>

definition extractGeneratedText :: "GeminiData \<Rightarrow> thrown + string option" where
  "extractGeneratedText d =
     (case candidates d of
        None \<Rightarrow> Inl typeErrorReading0
      | Some [] \<Rightarrow> Inr None
      | Some (c # cs) \<Rightarrow>
          (case candidate_content c of
             None \<Rightarrow> Inr None
           | Some ct \<Rightarrow>
               (case parts ct of
                  None \<Rightarrow> Inl typeErrorReading0
                | Some [] \<Rightarrow> Inr None
                | Some (p # ps) \<Rightarrow> Inr (part_text p))))"

definition geminiUrl :: "string \<Rightarrow> string \<Rightarrow> string" where
  "geminiUrl mdl apiToken =
     ''https://generativelanguage.googleapis.com/v1/models/'' @ mdl @ '':generateContent?key='' @ apiToken"

text \<open>The \<open>try\<close> block of the Gemini branch: the generated text, or the value thrown.\<close>

definition geminiAttempt :: "axios \<Rightarrow> string \<Rightarrow> GeminiRequestBody \<Rightarrow> thrown + string option" where
  "geminiAttempt post url requestBody =
     (case post url requestBody of
        Inl err \<Rightarrow> Inl err
      | Inr d \<Rightarrow>
          (case extractGeneratedText d of
             Inl err \<Rightarrow> Inl err
           | Inr generatedText \<Rightarrow>
               if truthy generatedText then Inr generatedText
               else Inl (ErrorObject None ''No text found in Gemini API response.'' None)))"

definition generate_text_gemini ::
  "axios \<Rightarrow> string \<Rightarrow> string \<Rightarrow> string \<Rightarrow> AIResponse exchange" where
  "generate_text_gemini post mdl apiToken prmpt =
     (let url = geminiUrl mdl apiToken;
          requestBody = \<lparr>contents = [[prmpt]]\<rparr>
      in case geminiAttempt post url requestBody of
           Inr generatedText \<Rightarrow>
             \<lparr>status = 200, body = textBody generatedText, calls = [AxiosPost url requestBody]\<rparr>
         | Inl err \<Rightarrow>
             if err = ThrownNullish then unexpectedError [AxiosPost url requestBody]
             else (let errorMessage = orElse (responseErrorMessage err) (messageOf err) in
                   \<lparr>status = 500,
                    body = errorBody (''AI text generation failed: '' @ template errorMessage @
                                      ''. Please check your AI configuration and try again.''),
                    calls = [AxiosPost url requestBody]\<rparr>))"

text \<open>The non-Gemini branch, once the service is constructed and the parameters are built.\<close>

definition generate_text_service ::
  "service \<Rightarrow> AIServiceConfig \<Rightarrow> TextGenerationParams \<Rightarrow> AIResponse exchange" where
  "generate_text_service svc config params =
     (case svc config params of
        Inr aiResponse \<Rightarrow>
          if success aiResponse \<and> truthy (text' aiResponse)
          then \<lparr>status = 200, body = textBody (text' aiResponse), calls = [ServiceCall config params]\<rparr>
          else \<lparr>status = 400,
                body = errorBody (''AI text generation failed: '' @
                                  orDefault (error aiResponse) ''Unknown error'' @ ''.''),
                calls = [ServiceCall config params]\<rparr>
      | Inl aiError \<Rightarrow>
          if aiError = ThrownNullish then unexpectedError [ServiceCall config params]
          else \<lparr>status = 500,
                body = errorBody (''AI service error: '' @
                                  orDefault (messageOf aiError) ''Unknown error'' @ ''.''),
                calls = [ServiceCall config params]\<rparr>)"

definition badRequest :: "AIResponse exchange" where
  "badRequest =
     \<lparr>status = 400, body = errorBody ''Level, API token, provider, and model are required'', calls = []\<rparr>"

definition generate_text :: "service \<Rightarrow> axios \<Rightarrow> TextGenerationRequest \<Rightarrow> AIResponse exchange" where
  "generate_text svc post req =
     (case (req_level req, req_apiToken req, req_provider req, req_model req) of
        (Some lvl, Some apiToken, Some prov, Some mdl) \<Rightarrow>
          if lvl = [] \<or> apiToken = [] \<or> prov = [] \<or> mdl = [] then badRequest
          else (let customPrompt = req_customPrompt req;
                    prmpt = buildPrompt lvl customPrompt
                in if prov = ''gemini'' then generate_text_gemini post mdl apiToken prmpt
                   else generate_text_service svc
                          \<lparr>provider = prov, apiKey = apiToken, model = Some mdl\<rparr>
                          \<lparr>level = lvl, prompt = prmpt,
                           maxTokens = Some (if truthy customPrompt then 200
                                             else (if lvl = ''Advanced'' then 700 else 500))\<rparr>)
      | _ \<Rightarrow> badRequest)"

subsection \<open>POST /translate-word\<close>

record TranslateWordRequest =
  word :: "string option"
  targetLanguage :: "string option"
  languageCode :: "string option"
  aiToken :: "string option"
  tw_provider :: "string option"
  tw_model :: "string option"

record TranslateResponse =
  tr_success :: bool
  translation :: "string option"
  tr_error :: "string option"

definition translateError :: "string \<Rightarrow> TranslateResponse" where
  "translateError e = \<lparr>tr_success = False, translation = None, tr_error = Some e\<rparr>"

definition translationPrompt :: "string \<Rightarrow> string \<Rightarrow> string" where
  "translationPrompt w lang =
     ''Translate the English word '' @ [CHR 0x22] @ w @ [CHR 0x22] @ '' to '' @ lang @ ''. '' @ LF @
     ''Provide only the direct translation without any additional text, explanation, or formatting.'' @ LF @
     ''Just the single word translation in '' @ lang @ ''.'' @ LF @
     ''Word to translate: '' @ w @ LF @
     ''Target language: '' @ lang"

text \<open>The AI translation stage (the inner \<open>try\<close>), for the word being translated.\<close>

definition translate_word_service ::
  "service \<Rightarrow> string \<Rightarrow> AIServiceConfig \<Rightarrow> TextGenerationParams \<Rightarrow> TranslateResponse exchange" where
  "translate_word_service svc w config params =
     (case svc config params of
        Inr aiResponse \<Rightarrow>
          if success aiResponse \<and> truthy (text' aiResponse)
          then \<lparr>status = 200,
                body = \<lparr>tr_success = True,
                        translation = map_option trim (text' aiResponse),
                        tr_error = None\<rparr>,
                calls = [ServiceCall config params]\<rparr>
          else \<lparr>status = 200,
                body = translateError (''Unable to translate '' @ [CHR 0x22] @ w @ [CHR 0x22] @ ''. '' @
                                       template (error aiResponse)),
                calls = [ServiceCall config params]\<rparr>
      | Inl aiError \<Rightarrow>
          \<lparr>status = 200,
           body = translateError (''Translation error: '' @
                    (if instanceofError aiError then template (messageOf aiError) else ''Unknown error'')),
           calls = [ServiceCall config params]\<rparr>)"

definition translate_word :: "service \<Rightarrow> TranslateWordRequest \<Rightarrow> TranslateResponse exchange" where
  "translate_word svc req =
     (case (word req, targetLanguage req, languageCode req) of
        (Some w, Some lang, Some code) \<Rightarrow>
          if w = [] \<or> lang = [] \<or> code = []
          then \<lparr>status = 400, body = translateError ''Word, target language, and language code are required'', calls = []\<rparr>
          else (case (aiToken req, tw_provider req) of
                  (Some token, Some prov) \<Rightarrow>
                    if token = [] \<or> prov = []
                    then \<lparr>status = 200, body = translateError ''AI token and provider are required for translation'', calls = []\<rparr>
                    else translate_word_service svc w
                           \<lparr>provider = prov, apiKey = token, model = tw_model req\<rparr>
                           \<lparr>level = ''Elementary'', prompt = translationPrompt w lang, maxTokens = Some 50\<rparr>
                | _ \<Rightarrow> \<lparr>status = 200, body = translateError ''AI token and provider are required for translation'', calls = []\<rparr>)
      | _ \<Rightarrow> \<lparr>status = 400, body = translateError ''Word, target language, and language code are required'', calls = []\<rparr>)"

subsection \<open>The gateway wired to the adapter\<close>

text \<open>\<open>new AIService(config).generateText(params)\<close>: it catches whatever a vendor call throws.\<close>

definition aiService :: "vendors \<Rightarrow> service" where
  "aiService v = (\<lambda>config params. Inr (generateText v config params))"

subsection \<open>What an exchange sent out\<close>

text \<open>The token budgets handed to the adapter, and the prompts sent, in a list of calls.\<close>

fun budgetOf :: "outbound \<Rightarrow> nat option list" where
  "budgetOf (ServiceCall config params) = [maxTokens params]"
| "budgetOf (AxiosPost url requestBody) = []"

definition budgetsSent :: "outbound list \<Rightarrow> nat option list" where
  "budgetsSent cs = concat (map budgetOf cs)"

fun promptOf :: "outbound \<Rightarrow> string list" where
  "promptOf (ServiceCall config params) = [prompt params]"
| "promptOf (AxiosPost url requestBody) = concat (contents requestBody)"

definition promptsSent :: "outbound list \<Rightarrow> string list" where
  "promptsSent cs = concat (map promptOf cs)"

subsection \<open>The word-count table of the specification\<close>

definition wordCountTable :: "(string \<times> string) list" where
  "wordCountTable =
     [(''Elementary'', ''150-200''), (''Pre-Intermediate'', ''200-250''),
      (''Intermediate'', ''250-300''), (''Upper-Intermediate'', ''300-400''),
      (''Advanced'', ''400-500'')]"

text \<open>The ranges of the table that occur in a prompt.\<close>

definition rangesIn :: "string \<Rightarrow> string list" where
  "rangesIn p = filter (includesStr p) (map snd wordCountTable)"

subsection \<open>A vendor response without the expected text\<close>





subsection \<open>Constant worlds\<close>

text \<open>A world whose vendors answer every request with the same outcome.\<close>

definition vendorsReturning ::
  "thrown + ChatCompletion \<Rightarrow> thrown + ClaudeMessage \<Rightarrow> thrown + string \<Rightarrow> vendors" where
  "vendorsReturning oa cl ge =
     \<lparr>openai_create = (\<lambda>key request. oa),
      anthropic_create = (\<lambda>key request. cl),
      gemini_generateContent = (\<lambda>key modelName fullPrompt. ge)\<rparr>"

definition axiosReturning :: "thrown + GeminiData \<Rightarrow> axios" where
  "axiosReturning r = (\<lambda>url requestBody. r)"

definition serviceReturning :: "thrown + AIServiceResponse \<Rightarrow> service" where
  "serviceReturning r = (\<lambda>config params. r)"

section \<open>Properties\<close>

subsection \<open>Substrings\<close>

lemma startsWith_append: "startsWith (s @ b) s"
  by (induction s) auto

lemma includesStr_here: "includesStr (s @ b) s"
  by (cases "s @ b") (use startsWith_append [of s b] in auto)

lemma includesStr_mid: "includesStr (a @ s @ b) s"
  by (induction a) (auto simp: includesStr_here)

subsection \<open>The teacher persona\<close>

lemma getSystemPrompt_levels:
  "getSystemPrompt ''Elementary'' = JString ''You are an English teacher creating simple, engaging content for elementary level students. Use basic vocabulary and simple sentence structures.''"
  "getSystemPrompt ''Pre-Intermediate'' = JString ''You are an English teacher creating content for pre-intermediate students. Use moderately complex vocabulary and varied sentence structures.''"
  "getSystemPrompt ''Intermediate'' = JString ''You are an English teacher creating content for intermediate level students. Use a good variety of vocabulary and complex sentence structures.''"
  "getSystemPrompt ''Upper-Intermediate'' = JString ''You are an English teacher creating advanced content for upper-intermediate students. Use sophisticated vocabulary and complex grammatical structures.''"
  "getSystemPrompt ''Advanced'' = JString ''You are an English teacher creating challenging content for advanced students. Use complex vocabulary, idiomatic expressions, and sophisticated grammatical structures.''"
  by (simp_all add: getSystemPrompt_def getProperty_def prompts_def orValue_def)

text \<open>
  A level that is neither one of the five tiers nor the name of a member every object
  inherits gets the Intermediate persona.
\<close>

lemma getSystemPrompt_fallback:
  assumes "lvl \<notin> {''Elementary'', ''Pre-Intermediate'', ''Intermediate'', ''Upper-Intermediate'', ''Advanced''}"
      and "lvl \<notin> set objectPrototypeKeys"
  shows "getSystemPrompt lvl = getSystemPrompt ''Intermediate''"
  using assms by (simp add: getSystemPrompt_def getProperty_def prompts_def orValue_def)

text \<open>
  C7 (the persona mapping has one fixed string per tier, and every other level value gets
  the Intermediate string). The five tiers are as claimed (\<open>getSystemPrompt_levels\<close>), but
  the fallback \<open>prompts[level] || prompts['Intermediate']\<close> only fires when the property
  read is falsy. For the level \<open>constructor\<close> the read finds the member inherited from
  \<open>Object.prototype\<close>, which is truthy, so that member is returned and not the
  Intermediate persona.
\<close>

theorem getSystemPrompt_constructor:
  "getSystemPrompt ''constructor'' = JInherited ''constructor'' \<and>
   getSystemPrompt ''constructor'' \<noteq> getSystemPrompt ''Intermediate''"
  by (simp add: getSystemPrompt_def getProperty_def prompts_def orValue_def objectPrototypeKeys_def)

subsection \<open>Error classification\<close>

lemma classifyError_rate_limit_msg:
  assumes "includesStr (toLowerCase msg) ''rate limit''"
      and "\<not> includesStr (toLowerCase msg) ''api key not valid''"
      and "\<not> includesStr (toLowerCase msg) ''invalid api key''"
      and "\<not> includesStr (toLowerCase msg) ''api_key_invalid''"
      and "\<not> includesStr (toLowerCase msg) ''unauthorized''"
  shows "classifyError prov (ErrorObject st msg rm) =
           toUpperCase prov @ '' rate limit exceeded. Please try again in a few minutes.''"
  using assms by (simp add: classifyError_def)

text \<open>
  C4, as the code has it. The classifier tests the credential phrases before the rate-limit
  phrases. When \<open>generateText\<close> catches an \<open>Error\<close> whose lower-cased message contains
  \<open>rate limit\<close> and none of the four credential phrases, the result is a failure whose
  message is the rate-limit template: it contains \<open>rate limit exceeded\<close> and the
  upper-cased provider name.
\<close>

theorem generateText_rate_limit:
  assumes "dispatch v config params = Inl (ErrorObject st msg rm)"
      and "includesStr (toLowerCase msg) ''rate limit''"
      and "\<not> includesStr (toLowerCase msg) ''api key not valid''"
      and "\<not> includesStr (toLowerCase msg) ''invalid api key''"
      and "\<not> includesStr (toLowerCase msg) ''api_key_invalid''"
      and "\<not> includesStr (toLowerCase msg) ''unauthorized''"
  shows "generateText v config params =
           failure (classifyError (provider config) (ErrorObject st msg rm)) \<and>
         includesStr (classifyError (provider config) (ErrorObject st msg rm)) ''rate limit exceeded'' \<and>
         includesStr (classifyError (provider config) (ErrorObject st msg rm)) (toUpperCase (provider config))"
proof -
  let ?m = "classifyError (provider config) (ErrorObject st msg rm)"
  have m: "?m = toUpperCase (provider config) @ '' rate limit exceeded. Please try again in a few minutes.''"
    using assms(2-6) by (rule classifyError_rate_limit_msg)
  have "includesStr (toUpperCase (provider config) @ '' '' @ ''rate limit exceeded'' @
          ''. Please try again in a few minutes.'') ''rate limit exceeded''"
    using includesStr_mid [of "toUpperCase (provider config) @ '' ''" "''rate limit exceeded''"
        "''. Please try again in a few minutes.''"]
    by simp
  then have a: "includesStr ?m ''rate limit exceeded''"
    by (simp add: m)
  have b: "includesStr ?m (toUpperCase (provider config))"
    unfolding m by (rule includesStr_here)
  have c: "generateText v config params = failure ?m"
    using assms(1) by (simp add: generateText_def)
  from a b c show ?thesis by blast
qed

theorem generateText_rate_limit_witness:
  "dispatch
     (vendorsReturning (Inl (ErrorObject (Some 429) ''Rate limit reached for requests'' None))
        (Inr \<lparr>content_blocks = []\<rparr>) (Inr []))
     \<lparr>provider = ''openai'', apiKey = ''sk-x'', model = None\<rparr>
     \<lparr>level = ''Elementary'', prompt = ''Hello'', maxTokens = None\<rparr>
     = Inl (ErrorObject (Some 429) ''Rate limit reached for requests'' None) \<and>
   includesStr (toLowerCase ''Rate limit reached for requests'') ''rate limit'' \<and>
   \<not> includesStr (toLowerCase ''Rate limit reached for requests'') ''api key not valid'' \<and>
   \<not> includesStr (toLowerCase ''Rate limit reached for requests'') ''invalid api key'' \<and>
   \<not> includesStr (toLowerCase ''Rate limit reached for requests'') ''api_key_invalid'' \<and>
   \<not> includesStr (toLowerCase ''Rate limit reached for requests'') ''unauthorized'' \<and>
   generateText
     (vendorsReturning (Inl (ErrorObject (Some 429) ''Rate limit reached for requests'' None))
        (Inr \<lparr>content_blocks = []\<rparr>) (Inr []))
     \<lparr>provider = ''openai'', apiKey = ''sk-x'', model = None\<rparr>
     \<lparr>level = ''Elementary'', prompt = ''Hello'', maxTokens = None\<rparr>
     = failure ''OPENAI rate limit exceeded. Please try again in a few minutes.'' \<and>
   includesStr ''OPENAI rate limit exceeded. Please try again in a few minutes.'' ''rate limit exceeded'' \<and>
   includesStr ''OPENAI rate limit exceeded. Please try again in a few minutes.'' (toUpperCase ''openai'')"
proof -
  let ?v = "vendorsReturning (Inl (ErrorObject (Some 429) ''Rate limit reached for requests'' None))
              (Inr \<lparr>content_blocks = []\<rparr>) (Inr [])"
  let ?c = "\<lparr>provider = ''openai'', apiKey = ''sk-x'', model = None\<rparr>"
  let ?p = "\<lparr>level = ''Elementary'', prompt = ''Hello'', maxTokens = None\<rparr>"
  have h1: "dispatch ?v ?c ?p = Inl (ErrorObject (Some 429) ''Rate limit reached for requests'' None)"
    by (simp add: dispatch_def generateWithOpenAI_def vendorsReturning_def)
  have h2: "includesStr (toLowerCase ''Rate limit reached for requests'') ''rate limit''"
    by code_simp
  have h3: "\<not> includesStr (toLowerCase ''Rate limit reached for requests'') ''api key not valid''"
    by code_simp
  have h4: "\<not> includesStr (toLowerCase ''Rate limit reached for requests'') ''invalid api key''"
    by code_simp
  have h5: "\<not> includesStr (toLowerCase ''Rate limit reached for requests'') ''api_key_invalid''"
    by code_simp
  have h6: "\<not> includesStr (toLowerCase ''Rate limit reached for requests'') ''unauthorized''"
    by code_simp
  have m: "classifyError ''openai'' (ErrorObject (Some 429) ''Rate limit reached for requests'' None)
             = ''OPENAI rate limit exceeded. Please try again in a few minutes.''"
    by code_simp
  show ?thesis
    using generateText_rate_limit [OF h1 h2 h3 h4 h5 h6] h1 h2 h3 h4 h5 h6
    by (simp add: m)
qed

text \<open>
  The claim as stated fails when the message also contains a credential phrase: the
  credential template is returned, and it does not contain \<open>rate limit exceeded\<close>.
\<close>

theorem generateText_rate_limit_counterexample:
  "includesStr (toLowerCase ''Rate limit reached for unauthorized organization'') ''rate limit'' \<and>
   dispatch
     (vendorsReturning
        (Inl (ErrorObject (Some 429) ''Rate limit reached for unauthorized organization'' None))
        (Inr \<lparr>content_blocks = []\<rparr>) (Inr []))
     \<lparr>provider = ''openai'', apiKey = ''sk-x'', model = None\<rparr>
     \<lparr>level = ''Elementary'', prompt = ''Hello'', maxTokens = None\<rparr>
     = Inl (ErrorObject (Some 429) ''Rate limit reached for unauthorized organization'' None) \<and>
   generateText
     (vendorsReturning
        (Inl (ErrorObject (Some 429) ''Rate limit reached for unauthorized organization'' None))
        (Inr \<lparr>content_blocks = []\<rparr>) (Inr []))
     \<lparr>provider = ''openai'', apiKey = ''sk-x'', model = None\<rparr>
     \<lparr>level = ''Elementary'', prompt = ''Hello'', maxTokens = None\<rparr>
     = failure ''Invalid OPENAI API key. Please check your API key and try again.'' \<and>
   \<not> includesStr ''Invalid OPENAI API key. Please check your API key and try again.'' ''rate limit exceeded''"
  by code_simp

subsection \<open>The gateway: generate-text\<close>

lemma generate_text_valid:
  assumes "lvl \<noteq> []" and "tok \<noteq> []" and "prov \<noteq> []" and "mdl \<noteq> []"
  shows "generate_text svc post
           \<lparr>req_level = Some lvl, req_apiToken = Some tok, req_provider = Some prov,
            req_model = Some mdl, req_customPrompt = cp\<rparr> =
         (if prov = ''gemini'' then generate_text_gemini post mdl tok (buildPrompt lvl cp)
          else generate_text_service svc
                 \<lparr>provider = prov, apiKey = tok, model = Some mdl\<rparr>
                 \<lparr>level = lvl, prompt = buildPrompt lvl cp,
                  maxTokens = Some (if truthy cp then 200 else (if lvl = ''Advanced'' then 700 else 500))\<rparr>)"
  using assms by (simp add: generate_text_def Let_def)

lemma calls_generate_text_service:
  "calls (generate_text_service svc config params) = [ServiceCall config params]"
  by (simp add: generate_text_service_def unexpectedError_def split: sum.split)

lemma calls_generate_text_gemini:
  "calls (generate_text_gemini post mdl tok p) = [AxiosPost (geminiUrl mdl tok) \<lparr>contents = [[p]]\<rparr>]"
  by (simp add: generate_text_gemini_def unexpectedError_def Let_def split: sum.split)

text \<open>
  C1, as the code has it. A request whose four required fields are non-empty strings
  passes validation. For a provider other than \<open>gemini\<close> the handler calls the adapter:
  a reported failure is answered with HTTP 400 and the error
  \<open>AI text generation failed: {error}.\<close>, where \<open>{error}\<close> is the adapter's error, or
  \<open>Unknown error\<close> when that is absent or empty; HTTP 500 is answered exactly when the
  adapter call throws. For the provider \<open>gemini\<close> the handler does not call the adapter:
  it posts to the vendor itself, and every failure of that attempt is answered with HTTP
  500 and the error
  \<open>AI text generation failed: {message}. Please check your AI configuration and try again.\<close>
  (when the value thrown is \<open>null\<close> or \<open>undefined\<close>, with HTTP 500 and the error
  \<open>An unexpected error occurred on the server.\<close>).
\<close>

theorem generate_text_failure_status:
  assumes "lvl \<noteq> []" and "tok \<noteq> []" and "prov \<noteq> []" and "mdl \<noteq> []"
  shows "(prov \<noteq> ''gemini'' \<longrightarrow>
            (case svc \<lparr>provider = prov, apiKey = tok, model = Some mdl\<rparr>
                      \<lparr>level = lvl, prompt = buildPrompt lvl cp,
                       maxTokens = Some (if truthy cp then 200 else (if lvl = ''Advanced'' then 700 else 500))\<rparr> of
               Inr aiResponse \<Rightarrow>
                 (\<not> success aiResponse \<longrightarrow>
                    status (generate_text svc post
                      \<lparr>req_level = Some lvl, req_apiToken = Some tok, req_provider = Some prov,
                       req_model = Some mdl, req_customPrompt = cp\<rparr>) = 400 \<and>
                    body (generate_text svc post
                      \<lparr>req_level = Some lvl, req_apiToken = Some tok, req_provider = Some prov,
                       req_model = Some mdl, req_customPrompt = cp\<rparr>)
                    = \<lparr>res_success = False, res_text = None, res_message = None,
                       res_error = Some (''AI text generation failed: '' @
                                         orDefault (error aiResponse) ''Unknown error'' @ ''.'')\<rparr>) \<and>
                 status (generate_text svc post
                   \<lparr>req_level = Some lvl, req_apiToken = Some tok, req_provider = Some prov,
                    req_model = Some mdl, req_customPrompt = cp\<rparr>) \<noteq> 500
             | Inl aiError \<Rightarrow>
                 status (generate_text svc post
                   \<lparr>req_level = Some lvl, req_apiToken = Some tok, req_provider = Some prov,
                    req_model = Some mdl, req_customPrompt = cp\<rparr>) = 500)) \<and>
         (prov = ''gemini'' \<longrightarrow>
            calls (generate_text svc post
              \<lparr>req_level = Some lvl, req_apiToken = Some tok, req_provider = Some prov,
               req_model = Some mdl, req_customPrompt = cp\<rparr>)
            = [AxiosPost (geminiUrl mdl tok) \<lparr>contents = [[buildPrompt lvl cp]]\<rparr>] \<and>
            (case geminiAttempt post (geminiUrl mdl tok) \<lparr>contents = [[buildPrompt lvl cp]]\<rparr> of
               Inr generatedText \<Rightarrow>
                 status (generate_text svc post
                   \<lparr>req_level = Some lvl, req_apiToken = Some tok, req_provider = Some prov,
                    req_model = Some mdl, req_customPrompt = cp\<rparr>) = 200
             | Inl err \<Rightarrow>
                 status (generate_text svc post
                   \<lparr>req_level = Some lvl, req_apiToken = Some tok, req_provider = Some prov,
                    req_model = Some mdl, req_customPrompt = cp\<rparr>) = 500 \<and>
                 body (generate_text svc post
                   \<lparr>req_level = Some lvl, req_apiToken = Some tok, req_provider = Some prov,
                    req_model = Some mdl, req_customPrompt = cp\<rparr>)
                 = \<lparr>res_success = False, res_text = None, res_message = None,
                    res_error = Some (if err = ThrownNullish
                                      then ''An unexpected error occurred on the server.''
                                      else ''AI text generation failed: '' @
                                           template (orElse (responseErrorMessage err) (messageOf err)) @
                                           ''. Please check your AI configuration and try again.'')\<rparr>))"
proof (cases "prov = ''gemini''")
  case True
  show ?thesis
    unfolding generate_text_valid [OF assms]
    using True
    by (simp add: generate_text_gemini_def errorBody_def unexpectedError_def Let_def
          split: sum.split)
next
  case False
  show ?thesis
    unfolding generate_text_valid [OF assms]
    using False
    by (simp add: generate_text_service_def errorBody_def unexpectedError_def split: sum.split)
qed

text \<open>
  The theorem at an OpenAI request whose adapter reports an invalid key (HTTP 400), and at
  a Gemini request whose vendor rejects the key (HTTP 500).
\<close>

theorem generate_text_failure_status_witness:
  "''Elementary'' \<noteq> [] \<and> ''sk-x'' \<noteq> [] \<and> ''openai'' \<noteq> [] \<and> ''gemini'' \<noteq> [] \<and> ''gpt-3.5-turbo'' \<noteq> [] \<and>
   ''openai'' \<noteq> ''gemini'' \<and>
   \<not> success (failure ''Invalid OPENAI API key. Please check your API key and try again.'') \<and>
   status (generate_text
      (serviceReturning (Inr (failure ''Invalid OPENAI API key. Please check your API key and try again.'')))
      (axiosReturning (Inr \<lparr>candidates = None\<rparr>))
      \<lparr>req_level = Some ''Elementary'', req_apiToken = Some ''sk-x'', req_provider = Some ''openai'',
       req_model = Some ''gpt-3.5-turbo'', req_customPrompt = None\<rparr>) = 400 \<and>
   body (generate_text
      (serviceReturning (Inr (failure ''Invalid OPENAI API key. Please check your API key and try again.'')))
      (axiosReturning (Inr \<lparr>candidates = None\<rparr>))
      \<lparr>req_level = Some ''Elementary'', req_apiToken = Some ''sk-x'', req_provider = Some ''openai'',
       req_model = Some ''gpt-3.5-turbo'', req_customPrompt = None\<rparr>)
   = \<lparr>res_success = False, res_text = None, res_message = None,
      res_error = Some ''AI text generation failed: Invalid OPENAI API key. Please check your API key and try again..''\<rparr> \<and>
   status (generate_text
      (serviceReturning (Inr (failure ''unused'')))
      (axiosReturning (Inl (ErrorObject (Some 400) ''Request failed with status code 400''
                              (Some ''API key not valid. Please pass a valid API key.''))))
      \<lparr>req_level = Some ''Elementary'', req_apiToken = Some ''sk-x'', req_provider = Some ''gemini'',
       req_model = Some ''gpt-3.5-turbo'', req_customPrompt = None\<rparr>) = 500 \<and>
   body (generate_text
      (serviceReturning (Inr (failure ''unused'')))
      (axiosReturning (Inl (ErrorObject (Some 400) ''Request failed with status code 400''
                              (Some ''API key not valid. Please pass a valid API key.''))))
      \<lparr>req_level = Some ''Elementary'', req_apiToken = Some ''sk-x'', req_provider = Some ''gemini'',
       req_model = Some ''gpt-3.5-turbo'', req_customPrompt = None\<rparr>)
   = \<lparr>res_success = False, res_text = None, res_message = None,
      res_error = Some ''AI text generation failed: API key not valid. Please pass a valid API key.. Please check your AI configuration and try again.''\<rparr>"
proof -
  have l: "''Elementary'' \<noteq> []" and t: "''sk-x'' \<noteq> []" and o: "''openai'' \<noteq> []"
    and g: "''gemini'' \<noteq> []" and m: "''gpt-3.5-turbo'' \<noteq> []"
    by simp_all
  note a = generate_text_failure_status [OF l t o m,
      where svc = "serviceReturning (Inr (failure ''Invalid OPENAI API key. Please check your API key and try again.''))"
        and cp = None and post = "axiosReturning (Inr \<lparr>candidates = None\<rparr>)"]
  note b = generate_text_failure_status [OF l t g m,
      where svc = "serviceReturning (Inr (failure ''unused''))" and cp = None
        and post = "axiosReturning (Inl (ErrorObject (Some 400) ''Request failed with status code 400''
                                 (Some ''API key not valid. Please pass a valid API key.'')))"]
  show ?thesis
    using a b
    by (simp add: serviceReturning_def axiosReturning_def failure_def geminiAttempt_def orElse_def)
qed

text \<open>
  The claim as stated fails for \<open>gemini\<close>: in a world where the adapter would report a
  failure for this very request, the gateway answers HTTP 500.
\<close>

theorem generate_text_failure_status_counterexample:
  "\<not> success (generateText (vendorsReturning (Inr \<lparr>choices = []\<rparr>) (Inr \<lparr>content_blocks = []\<rparr>) (Inr []))
       \<lparr>provider = ''gemini'', apiKey = ''AIza-x'', model = Some ''gemini-2.5-flash''\<rparr>
       \<lparr>level = ''Elementary'', prompt = buildPrompt ''Elementary'' None, maxTokens = Some 500\<rparr>) \<and>
   status (generate_text
      (aiService (vendorsReturning (Inr \<lparr>choices = []\<rparr>) (Inr \<lparr>content_blocks = []\<rparr>) (Inr [])))
      (axiosReturning (Inr \<lparr>candidates = Some []\<rparr>))
      \<lparr>req_level = Some ''Elementary'', req_apiToken = Some ''AIza-x'', req_provider = Some ''gemini'',
       req_model = Some ''gemini-2.5-flash'', req_customPrompt = None\<rparr>) = 500 \<and>
   status (generate_text
      (aiService (vendorsReturning (Inr \<lparr>choices = []\<rparr>) (Inr \<lparr>content_blocks = []\<rparr>) (Inr [])))
      (axiosReturning (Inr \<lparr>candidates = Some []\<rparr>))
      \<lparr>req_level = Some ''Elementary'', req_apiToken = Some ''AIza-x'', req_provider = Some ''gemini'',
       req_model = Some ''gemini-2.5-flash'', req_customPrompt = None\<rparr>) \<noteq> 400"
  by (simp add: generate_text_def generate_text_gemini_def geminiAttempt_def extractGeneratedText_def
        axiosReturning_def generateText_def dispatch_def generateWithGemini_def vendorsReturning_def
        failure_def Let_def)

text \<open>
  C3, as the code has it. For a provider other than \<open>gemini\<close>, generate-text hands the
  adapter a budget of 200 tokens when a custom prompt is supplied, 700 for level
  \<open>Advanced\<close> without one, and 500 otherwise. For \<open>gemini\<close>, generate-text makes no
  adapter call: its one outbound call is the direct post, whose body holds the prompt and
  no token budget. translate-word hands the adapter a budget of 50 for every provider.
\<close>

theorem token_budgets:
  assumes "lvl \<noteq> []" and "tok \<noteq> []" and "prov \<noteq> []" and "mdl \<noteq> []"
      and "w \<noteq> []" and "lang \<noteq> []" and "code \<noteq> []"
  shows "(prov \<noteq> ''gemini'' \<longrightarrow>
            budgetsSent (calls (generate_text svc post
              \<lparr>req_level = Some lvl, req_apiToken = Some tok, req_provider = Some prov,
               req_model = Some mdl, req_customPrompt = cp\<rparr>))
            = [Some (if truthy cp then 200 else (if lvl = ''Advanced'' then 700 else 500))]) \<and>
         (prov = ''gemini'' \<longrightarrow>
            calls (generate_text svc post
              \<lparr>req_level = Some lvl, req_apiToken = Some tok, req_provider = Some prov,
               req_model = Some mdl, req_customPrompt = cp\<rparr>)
            = [AxiosPost (geminiUrl mdl tok) \<lparr>contents = [[buildPrompt lvl cp]]\<rparr>] \<and>
            budgetsSent (calls (generate_text svc post
              \<lparr>req_level = Some lvl, req_apiToken = Some tok, req_provider = Some prov,
               req_model = Some mdl, req_customPrompt = cp\<rparr>)) = []) \<and>
         budgetsSent (calls (translate_word svc
              \<lparr>word = Some w, targetLanguage = Some lang, languageCode = Some code,
               aiToken = Some tok, tw_provider = Some prov, tw_model = tmdl\<rparr>)) = [Some 50]"
proof -
  have t: "calls (translate_word svc
              \<lparr>word = Some w, targetLanguage = Some lang, languageCode = Some code,
               aiToken = Some tok, tw_provider = Some prov, tw_model = tmdl\<rparr>)
           = [ServiceCall \<lparr>provider = prov, apiKey = tok, model = tmdl\<rparr>
                \<lparr>level = ''Elementary'', prompt = translationPrompt w lang, maxTokens = Some 50\<rparr>]"
    using assms
    by (simp add: translate_word_def translate_word_service_def split: sum.split)
  show ?thesis
    unfolding generate_text_valid [OF assms(1-4)] t
    by (simp add: calls_generate_text_service calls_generate_text_gemini budgetsSent_def)
qed

theorem token_budgets_witness:
  "''Advanced'' \<noteq> [] \<and> ''sk-x'' \<noteq> [] \<and> ''claude'' \<noteq> [] \<and> ''gemini'' \<noteq> [] \<and>
   ''claude-3-haiku-20240307'' \<noteq> [] \<and> ''hello'' \<noteq> [] \<and> ''Spanish'' \<noteq> [] \<and> ''es'' \<noteq> [] \<and>
   ''claude'' \<noteq> ''gemini'' \<and>
   budgetsSent (calls (generate_text (serviceReturning (Inr (failure ''down''))) (axiosReturning (Inr \<lparr>candidates = None\<rparr>))
      \<lparr>req_level = Some ''Advanced'', req_apiToken = Some ''sk-x'', req_provider = Some ''claude'',
       req_model = Some ''claude-3-haiku-20240307'', req_customPrompt = None\<rparr>)) = [Some 700] \<and>
   budgetsSent (calls (generate_text (serviceReturning (Inr (failure ''down''))) (axiosReturning (Inr \<lparr>candidates = None\<rparr>))
      \<lparr>req_level = Some ''Advanced'', req_apiToken = Some ''sk-x'', req_provider = Some ''claude'',
       req_model = Some ''claude-3-haiku-20240307'', req_customPrompt = Some ''Say hello''\<rparr>)) = [Some 200] \<and>
   budgetsSent (calls (generate_text (serviceReturning (Inr (failure ''down''))) (axiosReturning (Inr \<lparr>candidates = None\<rparr>))
      \<lparr>req_level = Some ''Advanced'', req_apiToken = Some ''sk-x'', req_provider = Some ''gemini'',
       req_model = Some ''claude-3-haiku-20240307'', req_customPrompt = Some ''Say hello''\<rparr>)) = [] \<and>
   budgetsSent (calls (translate_word (serviceReturning (Inr (failure ''down'')))
      \<lparr>word = Some ''hello'', targetLanguage = Some ''Spanish'', languageCode = Some ''es'',
       aiToken = Some ''sk-x'', tw_provider = Some ''gemini'', tw_model = None\<rparr>)) = [Some 50]"
proof -
  have l: "''Advanced'' \<noteq> []" and t: "''sk-x'' \<noteq> []" and c: "''claude'' \<noteq> []"
    and g: "''gemini'' \<noteq> []" and m: "''claude-3-haiku-20240307'' \<noteq> []"
    and w: "''hello'' \<noteq> []" and s: "''Spanish'' \<noteq> []" and e: "''es'' \<noteq> []"
    by simp_all
  note a = token_budgets [OF l t c m w s e,
      where svc = "serviceReturning (Inr (failure ''down''))"
        and post = "axiosReturning (Inr \<lparr>candidates = None\<rparr>)" and cp = None and tmdl = None]
  note b = token_budgets [OF l t c m w s e,
      where svc = "serviceReturning (Inr (failure ''down''))"
        and post = "axiosReturning (Inr \<lparr>candidates = None\<rparr>)"
        and cp = "Some ''Say hello''" and tmdl = None]
  note d = token_budgets [OF l t g m w s e,
      where svc = "serviceReturning (Inr (failure ''down''))"
        and post = "axiosReturning (Inr \<lparr>candidates = None\<rparr>)"
        and cp = "Some ''Say hello''" and tmdl = None]
  show ?thesis
    using a b d by (simp add: budgetsSent_def)
qed

text \<open>
  The claim as stated fails for \<open>gemini\<close>: with a custom prompt, no budget of 200 reaches
  the adapter, and the direct call carries none.
\<close>

theorem token_budgets_counterexample:
  "budgetsSent (calls (generate_text
      (aiService (vendorsReturning (Inr \<lparr>choices = []\<rparr>) (Inr \<lparr>content_blocks = []\<rparr>) (Inr ''Hi there'')))
      (axiosReturning (Inr \<lparr>candidates = Some [\<lparr>candidate_content = Some \<lparr>parts = Some [\<lparr>part_text = Some ''Hi there''\<rparr>]\<rparr>\<rparr>]\<rparr>))
      \<lparr>req_level = Some ''Elementary'', req_apiToken = Some ''AIza-x'', req_provider = Some ''gemini'',
       req_model = Some ''gemini-2.5-flash'', req_customPrompt = Some ''Say hello''\<rparr>)) \<noteq> [Some 200] \<and>
   calls (generate_text
      (aiService (vendorsReturning (Inr \<lparr>choices = []\<rparr>) (Inr \<lparr>content_blocks = []\<rparr>) (Inr ''Hi there'')))
      (axiosReturning (Inr \<lparr>candidates = Some [\<lparr>candidate_content = Some \<lparr>parts = Some [\<lparr>part_text = Some ''Hi there''\<rparr>]\<rparr>\<rparr>]\<rparr>))
      \<lparr>req_level = Some ''Elementary'', req_apiToken = Some ''AIza-x'', req_provider = Some ''gemini'',
       req_model = Some ''gemini-2.5-flash'', req_customPrompt = Some ''Say hello''\<rparr>)
   = [AxiosPost ''https://generativelanguage.googleapis.com/v1/models/gemini-2.5-flash:generateContent?key=AIza-x''
        \<lparr>contents = [[''Say hello'']]\<rparr>]"
  by (simp add: generate_text_def generate_text_gemini_def geminiAttempt_def extractGeneratedText_def
        axiosReturning_def budgetsSent_def geminiUrl_def Let_def)

text \<open>
  C9. A custom prompt is supplied when the field holds a non-empty string, which is what
  the handler's test \<open>if (customPrompt)\<close> accepts. Then the prompt built is the custom
  prompt itself, with no template around it, and it is the one prompt the handler sends
  out: to the adapter, or in the body of the direct post when the provider is \<open>gemini\<close>.
\<close>

theorem custom_prompt_verbatim:
  assumes "lvl \<noteq> []" and "tok \<noteq> []" and "prov \<noteq> []" and "mdl \<noteq> []"
      and "customPrompt \<noteq> []"
  shows "buildPrompt lvl (Some customPrompt) = customPrompt \<and>
         promptsSent (calls (generate_text svc post
            \<lparr>req_level = Some lvl, req_apiToken = Some tok, req_provider = Some prov,
             req_model = Some mdl, req_customPrompt = Some customPrompt\<rparr>)) = [customPrompt]"
  unfolding generate_text_valid [OF assms(1-4)]
  using assms(5)
  by (simp add: calls_generate_text_service calls_generate_text_gemini promptsSent_def)

theorem custom_prompt_verbatim_witness:
  "''Intermediate'' \<noteq> [] \<and> ''sk-x'' \<noteq> [] \<and> ''openai'' \<noteq> [] \<and> ''gpt-4'' \<noteq> [] \<and>
   ''Greet the student in one sentence.'' \<noteq> [] \<and>
   buildPrompt ''Intermediate'' (Some ''Greet the student in one sentence.'')
     = ''Greet the student in one sentence.'' \<and>
   promptsSent (calls (generate_text (serviceReturning (Inr (failure ''down''))) (axiosReturning (Inr \<lparr>candidates = None\<rparr>))
      \<lparr>req_level = Some ''Intermediate'', req_apiToken = Some ''sk-x'', req_provider = Some ''openai'',
       req_model = Some ''gpt-4'', req_customPrompt = Some ''Greet the student in one sentence.''\<rparr>))
     = [''Greet the student in one sentence.'']"
proof -
  have l: "''Intermediate'' \<noteq> []" and t: "''sk-x'' \<noteq> []" and o: "''openai'' \<noteq> []"
    and m: "''gpt-4'' \<noteq> []" and p: "''Greet the student in one sentence.'' \<noteq> []"
    by simp_all
  show ?thesis
    using custom_prompt_verbatim [OF l t o m p,
        where svc = "serviceReturning (Inr (failure ''down''))"
          and post = "axiosReturning (Inr \<lparr>candidates = None\<rparr>)"]
    by simp
qed

subsection \<open>The prompt builder\<close>

lemma buildPrompt_falsy: "\<not> truthy customPrompt \<Longrightarrow> buildPrompt lvl customPrompt = levelPrompt lvl"
  by (cases customPrompt) auto

lemma levelPrompt_ranges:
  "includesStr (levelPrompt ''Elementary'') ''approximately 150-200 words.'' \<and>
   rangesIn (levelPrompt ''Elementary'') = [''150-200'']"
  "includesStr (levelPrompt ''Pre-Intermediate'') ''approximately 200-250 words.'' \<and>
   rangesIn (levelPrompt ''Pre-Intermediate'') = [''200-250'']"
  "includesStr (levelPrompt ''Intermediate'') ''approximately 250-300 words.'' \<and>
   rangesIn (levelPrompt ''Intermediate'') = [''250-300'']"
  "includesStr (levelPrompt ''Upper-Intermediate'') ''approximately 300-400 words.'' \<and>
   rangesIn (levelPrompt ''Upper-Intermediate'') = [''300-400'']"
  "includesStr (levelPrompt ''Advanced'') ''approximately 400-500 words.'' \<and>
   rangesIn (levelPrompt ''Advanced'') = [''400-500'']"
  by code_simp+

text \<open>
  C6. Without a custom prompt (the field absent or empty), the prompt built for a level of
  the table of section 4.1 asks for \<open>approximately {range} words\<close> with the table's range
  for that level, and no other range of the table occurs in it.
\<close>

theorem buildPrompt_word_count:
  assumes "\<not> truthy customPrompt" and "(lvl, rng) \<in> set wordCountTable"
  shows "includesStr (buildPrompt lvl customPrompt) (''approximately '' @ rng @ '' words.'') \<and>
         rangesIn (buildPrompt lvl customPrompt) = [rng]"
proof -
  have b: "buildPrompt lvl customPrompt = levelPrompt lvl"
    using assms(1) by (rule buildPrompt_falsy)
  have "(lvl, rng) = (''Elementary'', ''150-200'') \<or>
        (lvl, rng) = (''Pre-Intermediate'', ''200-250'') \<or>
        (lvl, rng) = (''Intermediate'', ''250-300'') \<or>
        (lvl, rng) = (''Upper-Intermediate'', ''300-400'') \<or>
        (lvl, rng) = (''Advanced'', ''400-500'')"
    using assms(2) by (simp add: wordCountTable_def)
  then consider
      (1) "lvl = ''Elementary''" "rng = ''150-200''"
    | (2) "lvl = ''Pre-Intermediate''" "rng = ''200-250''"
    | (3) "lvl = ''Intermediate''" "rng = ''250-300''"
    | (4) "lvl = ''Upper-Intermediate''" "rng = ''300-400''"
    | (5) "lvl = ''Advanced''" "rng = ''400-500''"
    by (elim disjE) simp_all
  then show ?thesis
  proof cases
    case 1 show ?thesis using levelPrompt_ranges(1) b by (simp add: 1)
  next
    case 2 show ?thesis using levelPrompt_ranges(2) b by (simp add: 2)
  next
    case 3 show ?thesis using levelPrompt_ranges(3) b by (simp add: 3)
  next
    case 4 show ?thesis using levelPrompt_ranges(4) b by (simp add: 4)
  next
    case 5 show ?thesis using levelPrompt_ranges(5) b by (simp add: 5)
  qed
qed

theorem buildPrompt_word_count_witness:
  "\<not> truthy (Some []) \<and> (''Upper-Intermediate'', ''300-400'') \<in> set wordCountTable \<and>
   includesStr (buildPrompt ''Upper-Intermediate'' (Some [])) ''approximately 300-400 words.'' \<and>
   rangesIn (buildPrompt ''Upper-Intermediate'' (Some [])) = [''300-400'']"
proof -
  have h1: "\<not> truthy (Some [])"
    by simp
  have h2: "(''Upper-Intermediate'', ''300-400'') \<in> set wordCountTable"
    by (simp add: wordCountTable_def)
  show ?thesis
    using buildPrompt_word_count [OF h1 h2] h1 h2 by simp
qed

subsection \<open>The gateway: translate-word\<close>

text \<open>
  C8. When word, target language and language code are present and the AI token or the
  provider is absent (or empty), the handler answers HTTP 200 with \<open>success: false\<close> and
  the fixed error, and makes no outbound call: the service is never constructed, and the
  handler has no other way to reach a vendor.
\<close>

theorem translate_word_no_credentials:
  assumes "truthy (word req)" and "truthy (targetLanguage req)" and "truthy (languageCode req)"
      and "\<not> truthy (aiToken req) \<or> \<not> truthy (tw_provider req)"
  shows "translate_word svc req =
           \<lparr>status = 200,
            body = \<lparr>tr_success = False, translation = None,
                    tr_error = Some ''AI token and provider are required for translation''\<rparr>,
            calls = []\<rparr>"
proof -
  from assms(1-3) obtain w lang code where
    f: "word req = Some w" "targetLanguage req = Some lang" "languageCode req = Some code"
       "w \<noteq> []" "lang \<noteq> []" "code \<noteq> []"
    by (cases "word req"; cases "targetLanguage req"; cases "languageCode req") auto
  show ?thesis
    using assms(4) f
    by (cases "aiToken req"; cases "tw_provider req")
       (auto simp: translate_word_def translateError_def)
qed

theorem translate_word_no_credentials_witness:
  "truthy (word \<lparr>word = Some ''hello'', targetLanguage = Some ''Spanish'', languageCode = Some ''es'',
                 aiToken = None, tw_provider = Some ''openai'', tw_model = None\<rparr>) \<and>
   truthy (targetLanguage \<lparr>word = Some ''hello'', targetLanguage = Some ''Spanish'', languageCode = Some ''es'',
                 aiToken = None, tw_provider = Some ''openai'', tw_model = None\<rparr>) \<and>
   truthy (languageCode \<lparr>word = Some ''hello'', targetLanguage = Some ''Spanish'', languageCode = Some ''es'',
                 aiToken = None, tw_provider = Some ''openai'', tw_model = None\<rparr>) \<and>
   \<not> truthy (aiToken \<lparr>word = Some ''hello'', targetLanguage = Some ''Spanish'', languageCode = Some ''es'',
                 aiToken = None, tw_provider = Some ''openai'', tw_model = None\<rparr>) \<and>
   translate_word (serviceReturning (Inr \<lparr>success = True, text' = Some ''hola'', error = None\<rparr>))
     \<lparr>word = Some ''hello'', targetLanguage = Some ''Spanish'', languageCode = Some ''es'',
      aiToken = None, tw_provider = Some ''openai'', tw_model = None\<rparr>
   = \<lparr>status = 200,
      body = \<lparr>tr_success = False, translation = None,
              tr_error = Some ''AI token and provider are required for translation''\<rparr>,
      calls = []\<rparr>"
proof -
  let ?req = "\<lparr>word = Some ''hello'', targetLanguage = Some ''Spanish'', languageCode = Some ''es'',
               aiToken = None, tw_provider = Some ''openai'', tw_model = None\<rparr>"
  have h1: "truthy (word ?req)" and h2: "truthy (targetLanguage ?req)" and h3: "truthy (languageCode ?req)"
    by simp_all
  have h4: "\<not> truthy (aiToken ?req) \<or> \<not> truthy (tw_provider ?req)"
    by simp
  show ?thesis
    using translate_word_no_credentials [OF h1 h2 h3 h4,
        where svc = "serviceReturning (Inr \<lparr>success = True, text' = Some ''hola'', error = None\<rparr>)"]
    by simp
qed

text \<open>
  C10. A request with word, target language, language code, AI token and provider all
  present reaches the AI translation stage. Whatever the adapter call does there, the
  answer is HTTP 200. When the adapter reports a failure, the body is \<open>success: false\<close>
  with the error \<open>Unable to translate "{word}". {error}\<close>; when the adapter call throws,
  the body is \<open>success: false\<close> with the error \<open>Translation error: {message}\<close>
  (\<open>Unknown error\<close> when the thrown value is not an \<open>Error\<close>).
\<close>

theorem translate_word_ai_stage:
  assumes "w \<noteq> []" and "lang \<noteq> []" and "code \<noteq> []" and "token \<noteq> []" and "prov \<noteq> []"
  shows "status (translate_word svc
            \<lparr>word = Some w, targetLanguage = Some lang, languageCode = Some code,
             aiToken = Some token, tw_provider = Some prov, tw_model = mdl\<rparr>) = 200 \<and>
         (case svc \<lparr>provider = prov, apiKey = token, model = mdl\<rparr>
                   \<lparr>level = ''Elementary'', prompt = translationPrompt w lang, maxTokens = Some 50\<rparr> of
            Inr aiResponse \<Rightarrow>
              \<not> success aiResponse \<longrightarrow>
              body (translate_word svc
                \<lparr>word = Some w, targetLanguage = Some lang, languageCode = Some code,
                 aiToken = Some token, tw_provider = Some prov, tw_model = mdl\<rparr>)
              = \<lparr>tr_success = False, translation = None,
                 tr_error = Some (''Unable to translate '' @ [CHR 0x22] @ w @ [CHR 0x22] @ ''. '' @
                                  template (error aiResponse))\<rparr>
          | Inl aiError \<Rightarrow>
              body (translate_word svc
                \<lparr>word = Some w, targetLanguage = Some lang, languageCode = Some code,
                 aiToken = Some token, tw_provider = Some prov, tw_model = mdl\<rparr>)
              = \<lparr>tr_success = False, translation = None,
                 tr_error = Some (''Translation error: '' @
                    (if instanceofError aiError then template (messageOf aiError) else ''Unknown error''))\<rparr>)"
  using assms
  by (simp add: translate_word_def translate_word_service_def translateError_def split: sum.split)

text \<open>
  The theorem at an adapter that reports the unimplemented provider, and at an adapter
  call that throws.
\<close>

theorem translate_word_ai_stage_witness:
  "''hello'' \<noteq> [] \<and> ''Spanish'' \<noteq> [] \<and> ''es'' \<noteq> [] \<and> ''sk-x'' \<noteq> [] \<and> ''cohere'' \<noteq> [] \<and>
   \<not> success (failure ''Cohere integration not yet implemented'') \<and>
   translate_word (serviceReturning (Inr (failure ''Cohere integration not yet implemented'')))
     \<lparr>word = Some ''hello'', targetLanguage = Some ''Spanish'', languageCode = Some ''es'',
      aiToken = Some ''sk-x'', tw_provider = Some ''cohere'', tw_model = None\<rparr>
   = \<lparr>status = 200,
      body = \<lparr>tr_success = False, translation = None,
              tr_error = Some (''Unable to translate '' @ [CHR 0x22] @ ''hello'' @ [CHR 0x22] @
                               ''. Cohere integration not yet implemented'')\<rparr>,
      calls = [ServiceCall \<lparr>provider = ''cohere'', apiKey = ''sk-x'', model = None\<rparr>
                 \<lparr>level = ''Elementary'', prompt = translationPrompt ''hello'' ''Spanish'', maxTokens = Some 50\<rparr>]\<rparr> \<and>
   status (translate_word (serviceReturning (Inl (ErrorObject None ''socket hang up'' None)))
     \<lparr>word = Some ''hello'', targetLanguage = Some ''Spanish'', languageCode = Some ''es'',
      aiToken = Some ''sk-x'', tw_provider = Some ''cohere'', tw_model = None\<rparr>) = 200 \<and>
   body (translate_word (serviceReturning (Inl (ErrorObject None ''socket hang up'' None)))
     \<lparr>word = Some ''hello'', targetLanguage = Some ''Spanish'', languageCode = Some ''es'',
      aiToken = Some ''sk-x'', tw_provider = Some ''cohere'', tw_model = None\<rparr>)
   = \<lparr>tr_success = False, translation = None, tr_error = Some ''Translation error: socket hang up''\<rparr>"
proof -
  have w: "''hello'' \<noteq> []" and s: "''Spanish'' \<noteq> []" and e: "''es'' \<noteq> []"
    and t: "''sk-x'' \<noteq> []" and c: "''cohere'' \<noteq> []"
    by simp_all
  note a = translate_word_ai_stage [OF w s e t c,
      where svc = "serviceReturning (Inr (failure ''Cohere integration not yet implemented''))"
        and mdl = None]
  note b = translate_word_ai_stage [OF w s e t c,
      where svc = "serviceReturning (Inl (ErrorObject None ''socket hang up'' None))" and mdl = None]
  have k: "calls (translate_word (serviceReturning (Inr (failure ''Cohere integration not yet implemented'')))
     \<lparr>word = Some ''hello'', targetLanguage = Some ''Spanish'', languageCode = Some ''es'',
      aiToken = Some ''sk-x'', tw_provider = Some ''cohere'', tw_model = None\<rparr>)
     = [ServiceCall \<lparr>provider = ''cohere'', apiKey = ''sk-x'', model = None\<rparr>
          \<lparr>level = ''Elementary'', prompt = translationPrompt ''hello'' ''Spanish'', maxTokens = Some 50\<rparr>]"
    by (simp add: translate_word_def translate_word_service_def serviceReturning_def failure_def)
  show ?thesis
    using a b k
    by (simp add: serviceReturning_def failure_def exchange.equality)
qed

subsection \<open>Responses without text\<close>








subsection \<open>The result envelope\<close>

text \<open>
  C5 (\<open>success: true\<close> implies a non-empty text or translation). Two paths break it.
  \<open>generateWithClaude\<close> returns the first text block's text without testing it, unlike
  the OpenAI and Gemini methods: an empty text block gives \<open>success: true\<close> with the
  empty text. The translate-word handler tests the adapter's text before trimming it: a
  text of one space gives \<open>success: true\<close> with the empty translation.
\<close>

theorem success_with_empty_text:
  "generateText
     (vendorsReturning (Inr \<lparr>choices = []\<rparr>)
        (Inr \<lparr>content_blocks = [\<lparr>block_type = ''text'', block_text = []\<rparr>]\<rparr>) (Inr []))
     \<lparr>provider = ''claude'', apiKey = ''sk-ant'', model = None\<rparr>
     \<lparr>level = ''Elementary'', prompt = ''Hello'', maxTokens = None\<rparr>
   = \<lparr>success = True, text' = Some [], error = None\<rparr> \<and>
   status (translate_word
     (aiService (vendorsReturning
        (Inr \<lparr>choices = [\<lparr>message = Some \<lparr>content = Some '' ''\<rparr>\<rparr>]\<rparr>)
        (Inr \<lparr>content_blocks = []\<rparr>) (Inr [])))
     \<lparr>word = Some ''hello'', targetLanguage = Some ''Spanish'', languageCode = Some ''es'',
      aiToken = Some ''sk-x'', tw_provider = Some ''openai'', tw_model = None\<rparr>) = 200 \<and>
   body (translate_word
     (aiService (vendorsReturning
        (Inr \<lparr>choices = [\<lparr>message = Some \<lparr>content = Some '' ''\<rparr>\<rparr>]\<rparr>)
        (Inr \<lparr>content_blocks = []\<rparr>) (Inr [])))
     \<lparr>word = Some ''hello'', targetLanguage = Some ''Spanish'', languageCode = Some ''es'',
      aiToken = Some ''sk-x'', tw_provider = Some ''openai'', tw_model = None\<rparr>)
   = \<lparr>tr_success = True, translation = Some [], tr_error = None\<rparr>"
  by (simp add: generateText_def dispatch_def generateWithClaude_def generateWithOpenAI_def
        vendorsReturning_def firstChoiceContent_def translate_word_def translate_word_service_def
        aiService_def trim_def isWhiteSpace_def)

text \<open>The other half of the envelope invariant holds in the adapter: a failure carries an error.\<close>

lemma generateText_failure_has_error:
  "\<not> success (generateText v config params) \<Longrightarrow> error (generateText v config params) \<noteq> None"
  by (auto simp: generateText_def dispatch_def generateWithOpenAI_def generateWithClaude_def
        generateWithGemini_def generateWithCohere_def failure_def Let_def
        split: sum.splits if_splits option.splits)

end
